theory Spec2Isabelle
  imports Main "HOL-Library.Word" "HOL-Library.Sublist"
begin

section \<open>JavaScript values used by the two handlers\<close>

text \<open>
  A JavaScript string is a sequence of 16-bit code units; \<open>===\<close>, \<open>replace\<close> and
  \<open>trim\<close> all work on code units. A value that is either a string or \<open>undefined\<close>
  (an environment variable, a header, a property) is a \<open>jsstring option\<close>, with \<open>None\<close>
  for \<open>undefined\<close>.
\<close>

type_synonym jsstring = "16 word list"

definition lit :: "string \<Rightarrow> jsstring" where
  \<comment> \<open>A string literal of the source, as code units.\<close>
  "lit s = map of_char s"

definition falsy :: "jsstring option \<Rightarrow> bool" where
  \<comment> \<open>\<open>!x\<close> for a string or undefined: undefined and the empty string are falsy.\<close>
  "falsy x = (case x of None \<Rightarrow> True | Some s \<Rightarrow> s = [])"

definition or_else :: "jsstring option \<Rightarrow> jsstring \<Rightarrow> jsstring" where
  \<comment> \<open>\<open>x || d\<close> with a string \<open>d\<close>: the left operand when it is truthy, else \<open>d\<close>.\<close>
  "or_else x d = (case x of None \<Rightarrow> d | Some s \<Rightarrow> if s = [] then d else s)"

fun replace :: "'a list \<Rightarrow> 'a list \<Rightarrow> 'a list \<Rightarrow> 'a list" where
  \<comment> \<open>\<open>s.replace(pat, rep)\<close> with a string pattern: the first occurrence of \<open>pat\<close> in
      \<open>s\<close>, scanning from the left, is replaced; without an occurrence \<open>s\<close> is returned.
      (The replacement of the source is the empty string, so no \<open>$\<close> pattern arises.)\<close>
  "replace pat rep [] = (if pat = [] then rep else [])"
| "replace pat rep (c # cs) =
     (if prefix pat (c # cs) then rep @ drop (length pat) (c # cs)
      else c # replace pat rep cs)"

definition is_white_space :: "16 word \<Rightarrow> bool" where
  \<comment> \<open>The code units \<open>trim\<close> strips: ECMAScript WhiteSpace and LineTerminator.\<close>
  "is_white_space c =
     (c = 0x0009 \<or> c = 0x000A \<or> c = 0x000B \<or> c = 0x000C \<or> c = 0x000D \<or> c = 0x0020
      \<or> c = 0x00A0 \<or> c = 0x1680 \<or> (0x2000 \<le> c \<and> c \<le> 0x200A) \<or> c = 0x2028
      \<or> c = 0x2029 \<or> c = 0x202F \<or> c = 0x205F \<or> c = 0x3000 \<or> c = 0xFEFF)"

definition trim :: "jsstring \<Rightarrow> jsstring" where
  "trim s = rev (dropWhile is_white_space (rev (dropWhile is_white_space s)))"

section \<open>Requests, the environment, the delegate and what a handler does\<close>

record request =
  headers :: "string \<Rightarrow> jsstring option"

text \<open>\<open>process.env\<close>: a variable is a string when set (possibly empty), else undefined.\<close>

type_synonym environment = "string \<Rightarrow> jsstring option"

text \<open>
  The argument object of \<open>startMotherDuckMCP\<close>. The response object \<open>res\<close>, which both
  handlers pass along unchanged, is represented by the trace of calls made on it.
\<close>

record mcp_args =
  arg_req :: request
  arg_token :: "jsstring option"
  arg_database :: jsstring

text \<open>
  What a \<open>catch\<close> clause can receive. Reading \<open>err.message\<close> raises a TypeError when
  \<open>err\<close> is null or undefined; on any other value it gives the property, a string for an
  Error object, undefined when the value has no such property.
\<close>

datatype thrown = Nullish | Thrown_value "jsstring option"

datatype type_error = TypeError

fun message :: "thrown \<Rightarrow> type_error + jsstring option" where
  "message Nullish = Inl TypeError"
| "message (Thrown_value m) = Inr m"

text \<open>
  The delegate is external: a parameter of the handlers, which either completes
  (\<open>None\<close>) or throws a value.
\<close>

type_synonym delegate = "mcp_args \<Rightarrow> thrown option"

text \<open>
  The calls a handler makes, in order, and how its promise settles. An object literal
  passed to \<open>res.json\<close> is the list of its properties.
\<close>

datatype event =
    Delegate_call mcp_args
  | Console_error thrown
  | Res_status nat
  | Res_json "(string \<times> jsstring option) list"

datatype completion = Resolved | Rejected type_error

record run =
  trace :: "event list"
  settled :: completion

section \<open>The secured handler (src/api/index.js)\<close>

text \<open>
  The body of \<open>handler\<close> is one \<open>try\<close> block: the token check (lines 7 to 11) and the
  key check (lines 14 to 16) each end the run with \<open>return res.status(..).json(..)\<close>;
  otherwise the delegate is awaited (lines 19 to 24). The \<open>catch\<close> clause (lines 25 to
  28) logs the thrown value, calls \<open>res.status(500)\<close> and only then builds the body,
  reading \<open>err.message\<close>.
\<close>

definition extract_token :: "request \<Rightarrow> jsstring" where
  \<comment> \<open>Lines 7 and 8: \<open>authHeader\<close> and \<open>token\<close>.\<close>
  "extract_token req =
     (let authHeader = or_else (headers req ''authorization'') (lit '''')
      in trim (replace (lit ''Bearer '') (lit '''') authHeader))"

definition handler_secured :: "environment \<Rightarrow> delegate \<Rightarrow> request \<Rightarrow> run" where
  "handler_secured env startMotherDuckMCP req =
     (let token = extract_token req in
      if token = [] \<or> Some token \<noteq> env ''API_BEARER_TOKEN'' then
        \<lparr>trace = [Res_status 401, Res_json [(''error'', Some (lit ''Unauthorized''))]],
         settled = Resolved\<rparr>
      else if falsy (env ''MOTHERDUCK_API_KEY'') then
        \<lparr>trace = [Res_status 500,
                  Res_json [(''error'', Some (lit ''Missing MOTHERDUCK_API_KEY env var''))]],
         settled = Resolved\<rparr>
      else
        (let args = \<lparr>arg_req = req, arg_token = env ''MOTHERDUCK_API_KEY'',
                     arg_database = or_else (env ''MOTHERDUCK_DATABASE'') (lit ''default'')\<rparr>
         in case startMotherDuckMCP args of
              None \<Rightarrow> \<lparr>trace = [Delegate_call args], settled = Resolved\<rparr>
            | Some err \<Rightarrow>
                (case message err of
                   Inl e \<Rightarrow>
                     \<lparr>trace = [Delegate_call args, Console_error err, Res_status 500],
                      settled = Rejected e\<rparr>
                 | Inr m \<Rightarrow>
                     \<lparr>trace = [Delegate_call args, Console_error err, Res_status 500,
                               Res_json [(''error'', Some (lit ''Internal MCP Server Error'')),
                                         (''details'', m)]],
                      settled = Resolved\<rparr>)))"

section \<open>The unsecured handler (src/unnamed/part_000)\<close>

text \<open>
  This \<open>handler\<close> awaits the delegate at once (lines 5 to 10); its \<open>catch\<close> clause
  (lines 11 to 14) logs the thrown value and sends a fixed body, without reading it.
\<close>

definition handler_unsecured :: "environment \<Rightarrow> delegate \<Rightarrow> request \<Rightarrow> run" where
  "handler_unsecured env startMotherDuckMCP req =
     (let args = \<lparr>arg_req = req, arg_token = env ''MOTHERDUCK_API_KEY'',
                  arg_database = or_else (env ''MOTHERDUCK_DATABASE'') (lit ''default'')\<rparr>
      in case startMotherDuckMCP args of
           None \<Rightarrow> \<lparr>trace = [Delegate_call args], settled = Resolved\<rparr>
         | Some err \<Rightarrow>
             \<lparr>trace = [Delegate_call args, Console_error err, Res_status 500,
                       Res_json [(''error'', Some (lit ''Internal MCP Server Error''))]],
              settled = Resolved\<rparr>)"

text \<open>The delegate invocations of a run, in order.\<close>

fun delegate_calls :: "event list \<Rightarrow> mcp_args list" where
  "delegate_calls [] = []"
| "delegate_calls (Delegate_call a # es) = a # delegate_calls es"
| "delegate_calls (_ # es) = delegate_calls es"


section \<open>Facts about \<open>replace\<close> and the truthiness tests\<close>

lemma replace_at_front: "replace pat rep (pat @ t) = rep @ t"
proof (cases "pat @ t")
  case Nil
  then show ?thesis by simp
next
  case (Cons c cs)
  have "prefix pat (c # cs)"
    by (metis Cons prefixI)
  moreover have "drop (length pat) (c # cs) = t"
    by (metis Cons append_eq_conv_conj)
  ultimately have "replace pat rep (c # cs) = rep @ t"
    by simp
  then show ?thesis
    by (simp only: Cons)
qed

lemma replace_absent: "\<not> sublist pat s \<Longrightarrow> replace pat rep s = s"
proof (induction s)
  case Nil
  then show ?case by auto
next
  case (Cons c cs)
  have np: "\<not> prefix pat (c # cs)"
    using Cons.prems prefix_imp_sublist by blast
  have "\<not> sublist pat cs"
    using Cons.prems by (simp add: sublist_Cons_right)
  then have "replace pat rep cs = cs"
    by (rule Cons.IH)
  then show ?case
    by (simp only: replace.simps np if_False)
qed

lemma prefix_of_long_front:
  assumes "prefix p (a @ b)" and "length p \<le> length a"
  shows "prefix p a"
proof -
  from assms(1) consider "prefix p a" | us where "p = a @ us"
    by (auto simp: prefix_append)
  then show ?thesis
  proof cases
    case 1
    then show ?thesis .
  next
    case 2
    with assms(2) have "us = []" by simp
    with 2 show ?thesis by simp
  qed
qed

text \<open>
  The occurrence that \<open>replace\<close> rewrites is the leftmost one: no occurrence of the
  pattern starts inside \<open>ys\<close>.
\<close>

lemma replace_leftmost:
  assumes "pat \<noteq> []" and "\<not> sublist pat (ys @ butlast pat)"
  shows "replace pat rep (ys @ pat @ zs) = ys @ rep @ zs"
  using assms(2)
proof (induction ys)
  case Nil
  show ?case by (simp add: replace_at_front)
next
  case (Cons y ys)
  have np: "\<not> prefix pat (y # ys @ pat @ zs)"
  proof
    assume p: "prefix pat (y # ys @ pat @ zs)"
    have "y # ys @ pat @ zs = ((y # ys) @ butlast pat) @ (last pat # zs)"
      using assms(1) by simp
    with p have "prefix pat (((y # ys) @ butlast pat) @ (last pat # zs))"
      by (simp only:)
    moreover have "length pat \<le> length ((y # ys) @ butlast pat)"
      by simp
    ultimately have "prefix pat ((y # ys) @ butlast pat)"
      by (rule prefix_of_long_front)
    then show False
      using Cons.prems prefix_imp_sublist by blast
  qed
  have "\<not> sublist pat (ys @ butlast pat)"
    using Cons.prems by (simp add: sublist_Cons_right)
  then have "replace pat rep (ys @ pat @ zs) = ys @ rep @ zs"
    by (rule Cons.IH)
  moreover have "replace pat rep (y # ys @ pat @ zs) = y # replace pat rep (ys @ pat @ zs)"
    by (simp only: replace.simps np if_False)
  ultimately show ?case
    by (simp only: append_Cons)
qed

lemma lit_empty: "lit [] = []"
  by (simp add: lit_def)

lemma lit_Bearer_nonempty: "lit ''Bearer '' \<noteq> []"
  by (simp add: lit_def)

lemma trim_empty: "trim [] = []"
  by (simp add: trim_def)

lemma extract_token_absent:
  "headers req ''authorization'' = None \<Longrightarrow> extract_token req = []"
  by (simp add: extract_token_def or_else_def lit_empty trim_empty)

lemma extract_token_present:
  "headers req ''authorization'' = Some h \<Longrightarrow>
   extract_token req = trim (replace (lit ''Bearer '') [] h)"
  by (cases "h = []") (simp_all add: extract_token_def or_else_def lit_empty lit_Bearer_nonempty)

section \<open>The three branches of the secured handler\<close>

lemma handler_secured_unauthorized:
  assumes "extract_token req = [] \<or> env ''API_BEARER_TOKEN'' \<noteq> Some (extract_token req)"
  shows "handler_secured env startMotherDuckMCP req =
           \<lparr>trace = [Res_status 401, Res_json [(''error'', Some (lit ''Unauthorized''))]],
            settled = Resolved\<rparr>"
  using assms by (auto simp: handler_secured_def Let_def)

lemma handler_secured_missing_key:
  assumes "extract_token req \<noteq> []"
    and "env ''API_BEARER_TOKEN'' = Some (extract_token req)"
    and "falsy (env ''MOTHERDUCK_API_KEY'')"
  shows "handler_secured env startMotherDuckMCP req =
           \<lparr>trace = [Res_status 500,
                     Res_json [(''error'', Some (lit ''Missing MOTHERDUCK_API_KEY env var''))]],
            settled = Resolved\<rparr>"
  using assms by (simp add: handler_secured_def Let_def)

text \<open>Past both checks the secured handler is the unsecured one, up to the catch clause.\<close>

lemma handler_secured_delegates:
  assumes "extract_token req \<noteq> []"
    and "env ''API_BEARER_TOKEN'' = Some (extract_token req)"
    and "\<not> falsy (env ''MOTHERDUCK_API_KEY'')"
  shows "handler_secured env startMotherDuckMCP req =
           (let args = \<lparr>arg_req = req, arg_token = env ''MOTHERDUCK_API_KEY'',
                        arg_database = or_else (env ''MOTHERDUCK_DATABASE'') (lit ''default'')\<rparr>
            in case startMotherDuckMCP args of
                 None \<Rightarrow> \<lparr>trace = [Delegate_call args], settled = Resolved\<rparr>
               | Some err \<Rightarrow>
                   (case message err of
                      Inl e \<Rightarrow>
                        \<lparr>trace = [Delegate_call args, Console_error err, Res_status 500],
                         settled = Rejected e\<rparr>
                    | Inr m \<Rightarrow>
                        \<lparr>trace = [Delegate_call args, Console_error err, Res_status 500,
                                  Res_json [(''error'', Some (lit ''Internal MCP Server Error'')),
                                            (''details'', m)]],
                         settled = Resolved\<rparr>))"
  using assms by (simp add: handler_secured_def Let_def)

text \<open>
  When the delegate throws null or undefined, the catch clause of the secured handler
  has set the status and then fails itself on \<open>err.message\<close>: no body is sent and the
  handler's promise is rejected.
\<close>

lemma handler_secured_nullish_throw:
  assumes "extract_token req \<noteq> []"
    and "env ''API_BEARER_TOKEN'' = Some (extract_token req)"
    and "\<not> falsy (env ''MOTHERDUCK_API_KEY'')"
    and "startMotherDuckMCP
           \<lparr>arg_req = req, arg_token = env ''MOTHERDUCK_API_KEY'',
            arg_database = or_else (env ''MOTHERDUCK_DATABASE'') (lit ''default'')\<rparr> =
         Some Nullish"
  shows "handler_secured env startMotherDuckMCP req =
           \<lparr>trace = [Delegate_call
                       \<lparr>arg_req = req, arg_token = env ''MOTHERDUCK_API_KEY'',
                        arg_database =
                          or_else (env ''MOTHERDUCK_DATABASE'') (lit ''default'')\<rparr>,
                     Console_error Nullish, Res_status 500],
            settled = Rejected TypeError\<rparr>"
  using assms by (simp add: handler_secured_def Let_def)

lemma secured_calls_once:
  assumes "extract_token req \<noteq> []"
    and "env ''API_BEARER_TOKEN'' = Some (extract_token req)"
    and "\<not> falsy (env ''MOTHERDUCK_API_KEY'')"
  shows "delegate_calls (trace (handler_secured env startMotherDuckMCP req)) =
           [\<lparr>arg_req = req, arg_token = env ''MOTHERDUCK_API_KEY'',
             arg_database = or_else (env ''MOTHERDUCK_DATABASE'') (lit ''default'')\<rparr>]"
  by (simp add: handler_secured_delegates [OF assms] Let_def split: option.split sum.split)

lemma unsecured_calls_once:
  "delegate_calls (trace (handler_unsecured env startMotherDuckMCP req)) =
     [\<lparr>arg_req = req, arg_token = env ''MOTHERDUCK_API_KEY'',
       arg_database = or_else (env ''MOTHERDUCK_DATABASE'') (lit ''default'')\<rparr>]"
  by (simp add: handler_unsecured_def Let_def split: option.split)

lemma secured_401_iff:
  "Res_status 401 \<in> set (trace (handler_secured env startMotherDuckMCP req)) \<longleftrightarrow>
     extract_token req = [] \<or> env ''API_BEARER_TOKEN'' \<noteq> Some (extract_token req)"
  by (auto simp: handler_secured_def Let_def split: option.split sum.split)

lemma secured_call_is_past_checks:
  assumes "Delegate_call a \<in> set (trace (handler_secured env startMotherDuckMCP req))"
  shows "extract_token req \<noteq> [] \<and> env ''API_BEARER_TOKEN'' = Some (extract_token req) \<and>
         \<not> falsy (env ''MOTHERDUCK_API_KEY'') \<and>
         a = \<lparr>arg_req = req, arg_token = env ''MOTHERDUCK_API_KEY'',
              arg_database = or_else (env ''MOTHERDUCK_DATABASE'') (lit ''default'')\<rparr>"
  using assms
  by (auto simp: handler_secured_def Let_def split: if_splits option.splits sum.splits)


section \<open>The claims\<close>

text \<open>
  C1. A request to the secured handler whose Authorization header is absent, or whose
  extracted token is empty or differs from \<open>API_BEARER_TOKEN\<close>, is answered with status
  401 and the body \<open>{error: 'Unauthorized'}\<close>, and the delegate is not invoked.
\<close>

theorem rejected_token_gets_401:
  assumes "headers req ''authorization'' = None \<or> extract_token req = [] \<or>
           env ''API_BEARER_TOKEN'' \<noteq> Some (extract_token req)"
  shows "handler_secured env startMotherDuckMCP req =
           \<lparr>trace = [Res_status 401, Res_json [(''error'', Some (lit ''Unauthorized''))]],
            settled = Resolved\<rparr> \<and>
         delegate_calls (trace (handler_secured env startMotherDuckMCP req)) = []"
proof -
  from assms have "extract_token req = [] \<or>
      env ''API_BEARER_TOKEN'' \<noteq> Some (extract_token req)"
    using extract_token_absent by blast
  then have "handler_secured env startMotherDuckMCP req =
      \<lparr>trace = [Res_status 401, Res_json [(''error'', Some (lit ''Unauthorized''))]],
       settled = Resolved\<rparr>"
    by (rule handler_secured_unauthorized)
  then show ?thesis by simp
qed

text \<open>
  Instances of C1: no header, the header \<open>'Bearer '\<close> (an empty token) and a token that
  differs from the secret in its last character.
\<close>

theorem rejected_token_gets_401_witness:
  "headers \<lparr>headers = Map.empty\<rparr> ''authorization'' = None \<and>
   handler_secured [''API_BEARER_TOKEN'' \<mapsto> lit ''abc123''] (\<lambda>a. None) \<lparr>headers = Map.empty\<rparr> =
     \<lparr>trace = [Res_status 401, Res_json [(''error'', Some (lit ''Unauthorized''))]],
      settled = Resolved\<rparr> \<and>
   extract_token \<lparr>headers = [''authorization'' \<mapsto> lit ''Bearer '']\<rparr> = [] \<and>
   handler_secured [''API_BEARER_TOKEN'' \<mapsto> lit ''abc123''] (\<lambda>a. None)
       \<lparr>headers = [''authorization'' \<mapsto> lit ''Bearer '']\<rparr> =
     \<lparr>trace = [Res_status 401, Res_json [(''error'', Some (lit ''Unauthorized''))]],
      settled = Resolved\<rparr> \<and>
   [''API_BEARER_TOKEN'' \<mapsto> lit ''abc123''] ''API_BEARER_TOKEN'' \<noteq>
     Some (extract_token \<lparr>headers = [''authorization'' \<mapsto> lit ''Bearer abc124'']\<rparr>) \<and>
   delegate_calls (trace (handler_secured [''API_BEARER_TOKEN'' \<mapsto> lit ''abc123''] (\<lambda>a. None)
       \<lparr>headers = [''authorization'' \<mapsto> lit ''Bearer abc124'']\<rparr>)) = []"
proof -
  have a: "headers \<lparr>headers = Map.empty\<rparr> ''authorization'' = None"
    by simp
  have b: "extract_token \<lparr>headers = [''authorization'' \<mapsto> lit ''Bearer '']\<rparr> = []"
    by (simp add: extract_token_def or_else_def trim_def is_white_space_def lit_def)
  have c: "[''API_BEARER_TOKEN'' \<mapsto> lit ''abc123''] ''API_BEARER_TOKEN'' \<noteq>
     Some (extract_token \<lparr>headers = [''authorization'' \<mapsto> lit ''Bearer abc124'']\<rparr>)"
    by (simp add: extract_token_def or_else_def trim_def is_white_space_def lit_def)
  note t = rejected_token_gets_401 [where env = "[''API_BEARER_TOKEN'' \<mapsto> lit ''abc123'']"
      and startMotherDuckMCP = "\<lambda>a. None"]
  from a have ra: "handler_secured [''API_BEARER_TOKEN'' \<mapsto> lit ''abc123''] (\<lambda>a. None)
       \<lparr>headers = Map.empty\<rparr> =
     \<lparr>trace = [Res_status 401, Res_json [(''error'', Some (lit ''Unauthorized''))]],
      settled = Resolved\<rparr>"
    using t [of "\<lparr>headers = Map.empty\<rparr>"] by blast
  from b have rb: "handler_secured [''API_BEARER_TOKEN'' \<mapsto> lit ''abc123''] (\<lambda>a. None)
       \<lparr>headers = [''authorization'' \<mapsto> lit ''Bearer '']\<rparr> =
     \<lparr>trace = [Res_status 401, Res_json [(''error'', Some (lit ''Unauthorized''))]],
      settled = Resolved\<rparr>"
    using t [of "\<lparr>headers = [''authorization'' \<mapsto> lit ''Bearer '']\<rparr>"] by blast
  from c have rc: "delegate_calls (trace (handler_secured [''API_BEARER_TOKEN'' \<mapsto> lit ''abc123'']
       (\<lambda>a. None) \<lparr>headers = [''authorization'' \<mapsto> lit ''Bearer abc124'']\<rparr>)) = []"
    using t [of "\<lparr>headers = [''authorization'' \<mapsto> lit ''Bearer abc124'']\<rparr>"] by blast
  from a b c ra rb rc show ?thesis by blast
qed

text \<open>
  C2, amended. A request whose extracted token is non-empty and equal to
  \<open>API_BEARER_TOKEN\<close>, with \<open>MOTHERDUCK_API_KEY\<close> set to a non-empty value, makes the secured
  handler invoke the delegate exactly once, with the request, with token
  \<open>MOTHERDUCK_API_KEY\<close>, and with database \<open>MOTHERDUCK_DATABASE\<close> when that is set to a
  non-empty value, \<open>'default'\<close> when it is unset or empty.
\<close>

theorem valid_token_delegates_once:
  assumes "extract_token req \<noteq> []"
    and "env ''API_BEARER_TOKEN'' = Some (extract_token req)"
    and "env ''MOTHERDUCK_API_KEY'' = Some k"
    and "k \<noteq> []"
  shows "delegate_calls (trace (handler_secured env startMotherDuckMCP req)) =
           [\<lparr>arg_req = req, arg_token = Some k,
             arg_database =
               (case env ''MOTHERDUCK_DATABASE'' of
                  None \<Rightarrow> lit ''default''
                | Some db \<Rightarrow> if db = [] then lit ''default'' else db)\<rparr>]"
proof -
  from assms(3,4) have "\<not> falsy (env ''MOTHERDUCK_API_KEY'')"
    by (simp add: falsy_def)
  with assms(1,2) have "delegate_calls (trace (handler_secured env startMotherDuckMCP req)) =
      [\<lparr>arg_req = req, arg_token = env ''MOTHERDUCK_API_KEY'',
        arg_database = or_else (env ''MOTHERDUCK_DATABASE'') (lit ''default'')\<rparr>]"
    by (rule secured_calls_once)
  with assms(3) show ?thesis
    by (simp add: or_else_def)
qed

text \<open>
  An instance of the amended C2: the secret \<open>'abc123'\<close> sent as \<open>'Bearer abc123'\<close>, the
  key \<open>'key'\<close> and the database \<open>'sales'\<close>, with a delegate that completes.
\<close>

theorem valid_token_delegates_once_witness:
  "extract_token \<lparr>headers = [''authorization'' \<mapsto> lit ''Bearer abc123'']\<rparr> \<noteq> [] \<and>
   [''API_BEARER_TOKEN'' \<mapsto> lit ''abc123'', ''MOTHERDUCK_API_KEY'' \<mapsto> lit ''key'',
    ''MOTHERDUCK_DATABASE'' \<mapsto> lit ''sales''] ''API_BEARER_TOKEN'' =
     Some (extract_token \<lparr>headers = [''authorization'' \<mapsto> lit ''Bearer abc123'']\<rparr>) \<and>
   lit ''key'' \<noteq> [] \<and>
   delegate_calls (trace (handler_secured
       [''API_BEARER_TOKEN'' \<mapsto> lit ''abc123'', ''MOTHERDUCK_API_KEY'' \<mapsto> lit ''key'',
        ''MOTHERDUCK_DATABASE'' \<mapsto> lit ''sales'']
       (\<lambda>a. None) \<lparr>headers = [''authorization'' \<mapsto> lit ''Bearer abc123'']\<rparr>)) =
     [\<lparr>arg_req = \<lparr>headers = [''authorization'' \<mapsto> lit ''Bearer abc123'']\<rparr>,
       arg_token = Some (lit ''key''), arg_database = lit ''sales''\<rparr>]"
proof -
  let ?req = "\<lparr>headers = [''authorization'' \<mapsto> lit ''Bearer abc123'']\<rparr>"
  let ?env = "[''API_BEARER_TOKEN'' \<mapsto> lit ''abc123'', ''MOTHERDUCK_API_KEY'' \<mapsto> lit ''key'',
    ''MOTHERDUCK_DATABASE'' \<mapsto> lit ''sales'']"
  have tok: "extract_token ?req = lit ''abc123''"
    by (simp add: extract_token_def or_else_def trim_def is_white_space_def lit_def)
  have h1: "extract_token ?req \<noteq> []"
    by (simp add: tok) (simp add: lit_def)
  have h2: "?env ''API_BEARER_TOKEN'' = Some (extract_token ?req)"
    by (simp add: tok)
  have h3: "?env ''MOTHERDUCK_API_KEY'' = Some (lit ''key'')"
    by simp
  have h4: "lit ''key'' \<noteq> []"
    by (simp add: lit_def)
  have db: "lit ''sales'' \<noteq> []"
    by (simp add: lit_def)
  have dbv: "(case ?env ''MOTHERDUCK_DATABASE'' of
               None \<Rightarrow> lit ''default''
             | Some db \<Rightarrow> if db = [] then lit ''default'' else db) = lit ''sales''"
    using db by simp
  have "delegate_calls (trace (handler_secured ?env (\<lambda>a. None) ?req)) =
     [\<lparr>arg_req = ?req, arg_token = Some (lit ''key''), arg_database = lit ''sales''\<rparr>]"
    using valid_token_delegates_once [OF h1 h2 h3 h4, of "\<lambda>a. None"]
    by (simp only: dbv)
  with h1 h2 h4 show ?thesis by blast
qed

text \<open>
  C2 as stated fails twice. With \<open>API_BEARER_TOKEN\<close> set to the empty string, the header
  \<open>'Bearer '\<close> carries a token equal to it, yet the delegate is not invoked. With
  \<open>MOTHERDUCK_DATABASE\<close> set to the empty string, the database passed is \<open>'default'\<close>, not
  the variable's value.
\<close>

theorem valid_token_counterexample:
  "[''API_BEARER_TOKEN'' \<mapsto> [], ''MOTHERDUCK_API_KEY'' \<mapsto> lit ''key''] ''API_BEARER_TOKEN'' =
     Some (extract_token \<lparr>headers = [''authorization'' \<mapsto> lit ''Bearer '']\<rparr>) \<and>
   \<not> falsy ([''API_BEARER_TOKEN'' \<mapsto> [], ''MOTHERDUCK_API_KEY'' \<mapsto> lit ''key'']
       ''MOTHERDUCK_API_KEY'') \<and>
   delegate_calls (trace (handler_secured
       [''API_BEARER_TOKEN'' \<mapsto> [], ''MOTHERDUCK_API_KEY'' \<mapsto> lit ''key'']
       (\<lambda>a. None) \<lparr>headers = [''authorization'' \<mapsto> lit ''Bearer '']\<rparr>)) = [] \<and>
   [''API_BEARER_TOKEN'' \<mapsto> lit ''abc123'', ''MOTHERDUCK_API_KEY'' \<mapsto> lit ''key'',
    ''MOTHERDUCK_DATABASE'' \<mapsto> []] ''API_BEARER_TOKEN'' =
     Some (extract_token \<lparr>headers = [''authorization'' \<mapsto> lit ''Bearer abc123'']\<rparr>) \<and>
   [''API_BEARER_TOKEN'' \<mapsto> lit ''abc123'', ''MOTHERDUCK_API_KEY'' \<mapsto> lit ''key'',
    ''MOTHERDUCK_DATABASE'' \<mapsto> []] ''MOTHERDUCK_DATABASE'' = Some [] \<and>
   map arg_database (delegate_calls (trace (handler_secured
       [''API_BEARER_TOKEN'' \<mapsto> lit ''abc123'', ''MOTHERDUCK_API_KEY'' \<mapsto> lit ''key'',
        ''MOTHERDUCK_DATABASE'' \<mapsto> []]
       (\<lambda>a. None) \<lparr>headers = [''authorization'' \<mapsto> lit ''Bearer abc123'']\<rparr>))) =
     [lit ''default''] \<and>
   lit ''default'' \<noteq> []"
  by (simp add: handler_secured_def extract_token_def or_else_def falsy_def trim_def
      is_white_space_def lit_def)

text \<open>
  C3, amended. When the extracted token passes the authorization check and
  \<open>MOTHERDUCK_API_KEY\<close> is unset or empty, the secured handler answers with status 500 and
  the body \<open>{error: 'Missing MOTHERDUCK_API_KEY env var'}\<close>, and does not invoke the
  delegate.
\<close>

theorem missing_key_gets_500:
  assumes "extract_token req \<noteq> []"
    and "env ''API_BEARER_TOKEN'' = Some (extract_token req)"
    and "env ''MOTHERDUCK_API_KEY'' = None \<or> env ''MOTHERDUCK_API_KEY'' = Some []"
  shows "handler_secured env startMotherDuckMCP req =
           \<lparr>trace = [Res_status 500,
                     Res_json [(''error'', Some (lit ''Missing MOTHERDUCK_API_KEY env var''))]],
            settled = Resolved\<rparr> \<and>
         delegate_calls (trace (handler_secured env startMotherDuckMCP req)) = []"
proof -
  from assms(3) have "falsy (env ''MOTHERDUCK_API_KEY'')"
    by (auto simp: falsy_def)
  with assms(1,2) have "handler_secured env startMotherDuckMCP req =
      \<lparr>trace = [Res_status 500,
                Res_json [(''error'', Some (lit ''Missing MOTHERDUCK_API_KEY env var''))]],
       settled = Resolved\<rparr>"
    by (rule handler_secured_missing_key)
  then show ?thesis by simp
qed

text \<open>
  Instances of the amended C3: the valid token \<open>'abc123'\<close> with the key unset, and with
  the key set to the empty string.
\<close>

theorem missing_key_gets_500_witness:
  "extract_token \<lparr>headers = [''authorization'' \<mapsto> lit ''Bearer abc123'']\<rparr> \<noteq> [] \<and>
   [''API_BEARER_TOKEN'' \<mapsto> lit ''abc123''] ''API_BEARER_TOKEN'' =
     Some (extract_token \<lparr>headers = [''authorization'' \<mapsto> lit ''Bearer abc123'']\<rparr>) \<and>
   [''API_BEARER_TOKEN'' \<mapsto> lit ''abc123''] ''MOTHERDUCK_API_KEY'' = None \<and>
   handler_secured [''API_BEARER_TOKEN'' \<mapsto> lit ''abc123''] (\<lambda>a. None)
       \<lparr>headers = [''authorization'' \<mapsto> lit ''Bearer abc123'']\<rparr> =
     \<lparr>trace = [Res_status 500,
               Res_json [(''error'', Some (lit ''Missing MOTHERDUCK_API_KEY env var''))]],
      settled = Resolved\<rparr> \<and>
   [''API_BEARER_TOKEN'' \<mapsto> lit ''abc123'', ''MOTHERDUCK_API_KEY'' \<mapsto> []]
     ''MOTHERDUCK_API_KEY'' = Some [] \<and>
   handler_secured [''API_BEARER_TOKEN'' \<mapsto> lit ''abc123'', ''MOTHERDUCK_API_KEY'' \<mapsto> []]
       (\<lambda>a. None) \<lparr>headers = [''authorization'' \<mapsto> lit ''Bearer abc123'']\<rparr> =
     \<lparr>trace = [Res_status 500,
               Res_json [(''error'', Some (lit ''Missing MOTHERDUCK_API_KEY env var''))]],
      settled = Resolved\<rparr>"
proof -
  let ?req = "\<lparr>headers = [''authorization'' \<mapsto> lit ''Bearer abc123'']\<rparr>"
  let ?env1 = "[''API_BEARER_TOKEN'' \<mapsto> lit ''abc123'']"
  let ?env2 = "[''API_BEARER_TOKEN'' \<mapsto> lit ''abc123'', ''MOTHERDUCK_API_KEY'' \<mapsto> []]"
  have tok: "extract_token ?req = lit ''abc123''"
    by (simp add: extract_token_def or_else_def trim_def is_white_space_def lit_def)
  have h1: "extract_token ?req \<noteq> []"
    by (simp add: tok) (simp add: lit_def)
  have h2: "?env1 ''API_BEARER_TOKEN'' = Some (extract_token ?req)"
    by (simp add: tok)
  have h2': "?env2 ''API_BEARER_TOKEN'' = Some (extract_token ?req)"
    by (simp add: tok)
  have h3: "?env1 ''MOTHERDUCK_API_KEY'' = None"
    by simp
  have h3': "?env2 ''MOTHERDUCK_API_KEY'' = Some []"
    by simp
  have r1: "handler_secured ?env1 (\<lambda>a. None) ?req =
     \<lparr>trace = [Res_status 500,
               Res_json [(''error'', Some (lit ''Missing MOTHERDUCK_API_KEY env var''))]],
      settled = Resolved\<rparr>"
    using missing_key_gets_500 [OF h1 h2 disjI1 [OF h3], of "\<lambda>a. None"] by blast
  have r2: "handler_secured ?env2 (\<lambda>a. None) ?req =
     \<lparr>trace = [Res_status 500,
               Res_json [(''error'', Some (lit ''Missing MOTHERDUCK_API_KEY env var''))]],
      settled = Resolved\<rparr>"
    using missing_key_gets_500 [OF h1 h2' disjI2 [OF h3'], of "\<lambda>a. None"] by blast
  from h1 h2 h3 r1 h3' r2 show ?thesis by blast
qed

text \<open>
  C3 as stated fails when the token is invalid: with \<open>MOTHERDUCK_API_KEY\<close> unset and the
  wrong token \<open>'abc124'\<close>, the answer is 401, not 500.
\<close>

theorem missing_key_invalid_token_counterexample:
  "[''API_BEARER_TOKEN'' \<mapsto> lit ''abc123''] ''MOTHERDUCK_API_KEY'' = None \<and>
   handler_secured [''API_BEARER_TOKEN'' \<mapsto> lit ''abc123''] (\<lambda>a. None)
       \<lparr>headers = [''authorization'' \<mapsto> lit ''Bearer abc124'']\<rparr> =
     \<lparr>trace = [Res_status 401, Res_json [(''error'', Some (lit ''Unauthorized''))]],
      settled = Resolved\<rparr> \<and>
   Res_status 500 \<notin> set (trace (handler_secured [''API_BEARER_TOKEN'' \<mapsto> lit ''abc123'']
       (\<lambda>a. None) \<lparr>headers = [''authorization'' \<mapsto> lit ''Bearer abc124'']\<rparr>))"
  by (simp add: handler_secured_def extract_token_def or_else_def trim_def
      is_white_space_def lit_def)

text \<open>
  C4, amended. The token compared is the Authorization header (the empty string when the
  header is absent) with the leftmost occurrence of \<open>'Bearer '\<close> removed, wherever it
  stands, and the result trimmed. For a header that starts with \<open>'Bearer '\<close> this is the
  trimmed rest of the header; a header that does not contain \<open>'Bearer '\<close> yields its own
  trimmed value as the token; an occurrence further right is cut out and what stands on
  both sides of it is joined.
\<close>

theorem extract_token_removes_leftmost_Bearer:
  "(headers req ''authorization'' = None \<longrightarrow> extract_token req = []) \<and>
   (\<forall>t. headers req ''authorization'' = Some (lit ''Bearer '' @ t) \<longrightarrow>
        extract_token req = trim t) \<and>
   (\<forall>h. headers req ''authorization'' = Some h \<longrightarrow> \<not> sublist (lit ''Bearer '') h \<longrightarrow>
        extract_token req = trim h) \<and>
   (\<forall>ys zs. headers req ''authorization'' = Some (ys @ lit ''Bearer '' @ zs) \<longrightarrow>
        \<not> sublist (lit ''Bearer '') (ys @ butlast (lit ''Bearer '')) \<longrightarrow>
        extract_token req = trim (ys @ zs))"
proof (intro conjI allI impI)
  assume "headers req ''authorization'' = None"
  then show "extract_token req = []"
    by (rule extract_token_absent)
next
  fix t
  assume "headers req ''authorization'' = Some (lit ''Bearer '' @ t)"
  then show "extract_token req = trim t"
    by (simp add: extract_token_present replace_at_front)
next
  fix h
  assume "headers req ''authorization'' = Some h" and "\<not> sublist (lit ''Bearer '') h"
  then show "extract_token req = trim h"
    by (simp add: extract_token_present replace_absent)
next
  fix ys zs
  assume "headers req ''authorization'' = Some (ys @ lit ''Bearer '' @ zs)"
    and "\<not> sublist (lit ''Bearer '') (ys @ butlast (lit ''Bearer ''))"
  then show "extract_token req = trim (ys @ zs)"
    using replace_leftmost [OF lit_Bearer_nonempty, of ys "[]" zs]
    by (simp add: extract_token_present)
qed

text \<open>
  Instances of the amended C4: no header; \<open>'Bearer  abc123 '\<close>; the bare \<open>'abc123'\<close>;
  \<open>'Basic Bearer abc'\<close>, whose token is \<open>'Basic abc'\<close>.
\<close>

theorem extract_token_removes_leftmost_Bearer_witness:
  "headers \<lparr>headers = Map.empty\<rparr> ''authorization'' = None \<and>
   extract_token \<lparr>headers = Map.empty\<rparr> = [] \<and>
   extract_token \<lparr>headers = [''authorization'' \<mapsto> lit ''Bearer '' @ lit '' abc123 '']\<rparr> =
     trim (lit '' abc123 '') \<and>
   trim (lit '' abc123 '') = lit ''abc123'' \<and>
   \<not> sublist (lit ''Bearer '') (lit ''abc123'') \<and>
   extract_token \<lparr>headers = [''authorization'' \<mapsto> lit ''abc123'']\<rparr> = trim (lit ''abc123'') \<and>
   \<not> sublist (lit ''Bearer '') (lit ''Basic '' @ butlast (lit ''Bearer '')) \<and>
   extract_token
       \<lparr>headers = [''authorization'' \<mapsto> lit ''Basic '' @ lit ''Bearer '' @ lit ''abc'']\<rparr> =
     trim (lit ''Basic '' @ lit ''abc'')"
proof -
  let ?r0 = "\<lparr>headers = Map.empty\<rparr>"
  let ?r1 = "\<lparr>headers = [''authorization'' \<mapsto> lit ''Bearer '' @ lit '' abc123 '']\<rparr>"
  let ?r2 = "\<lparr>headers = [''authorization'' \<mapsto> lit ''abc123'']\<rparr>"
  let ?r3 = "\<lparr>headers = [''authorization'' \<mapsto> lit ''Basic '' @ lit ''Bearer '' @ lit ''abc'']\<rparr>"
  have h0: "headers ?r0 ''authorization'' = None"
    by simp
  have h1: "headers ?r1 ''authorization'' = Some (lit ''Bearer '' @ lit '' abc123 '')"
    by simp
  have h2: "headers ?r2 ''authorization'' = Some (lit ''abc123'')"
    by simp
  have n2: "\<not> sublist (lit ''Bearer '') (lit ''abc123'')"
    by (simp add: lit_def sublist_Cons_right prefix_Cons)
  have h3: "headers ?r3 ''authorization'' = Some (lit ''Basic '' @ lit ''Bearer '' @ lit ''abc'')"
    by simp
  have n3: "\<not> sublist (lit ''Bearer '') (lit ''Basic '' @ butlast (lit ''Bearer ''))"
    by (simp add: lit_def sublist_Cons_right prefix_Cons)
  have t1: "trim (lit '' abc123 '') = lit ''abc123''"
    by (simp add: trim_def is_white_space_def lit_def)
  have c0: "extract_token ?r0 = []"
    using extract_token_removes_leftmost_Bearer [of ?r0] h0 by blast
  have c1: "extract_token ?r1 = trim (lit '' abc123 '')"
    using extract_token_removes_leftmost_Bearer [of ?r1] h1 by blast
  have c2: "extract_token ?r2 = trim (lit ''abc123'')"
    using extract_token_removes_leftmost_Bearer [of ?r2] h2 n2 by blast
  have c3: "extract_token ?r3 = trim (lit ''Basic '' @ lit ''abc'')"
    using extract_token_removes_leftmost_Bearer [of ?r3] h3 n3 by blast
  from h0 c0 c1 t1 n2 c2 n3 c3 show ?thesis by blast
qed

text \<open>
  C4 as stated fails on a header without the prefix: \<open>'abc123'\<close> does not start with
  \<open>'Bearer '\<close>, yet it yields the token \<open>'abc123'\<close>, and with that value as
  \<open>API_BEARER_TOKEN\<close> the request is let through to the delegate.
\<close>

theorem header_without_prefix_counterexample:
  "\<not> prefix (lit ''Bearer '') (lit ''abc123'') \<and>
   extract_token \<lparr>headers = [''authorization'' \<mapsto> lit ''abc123'']\<rparr> = lit ''abc123'' \<and>
   lit ''abc123'' \<noteq> [] \<and>
   trace (handler_secured
       [''API_BEARER_TOKEN'' \<mapsto> lit ''abc123'', ''MOTHERDUCK_API_KEY'' \<mapsto> lit ''key'']
       (\<lambda>a. None) \<lparr>headers = [''authorization'' \<mapsto> lit ''abc123'']\<rparr>) =
     [Delegate_call \<lparr>arg_req = \<lparr>headers = [''authorization'' \<mapsto> lit ''abc123'']\<rparr>,
                     arg_token = Some (lit ''key''), arg_database = lit ''default''\<rparr>]"
  by (simp add: handler_secured_def extract_token_def or_else_def falsy_def trim_def
      is_white_space_def lit_def)




text \<open>
  C6. With no environment variable set, the unsecured handler begins by invoking the
  delegate, once, with the request, with token undefined and with database \<open>'default'\<close>.
\<close>

theorem unsecured_no_env_passes_through:
  "take 1 (trace (handler_unsecured Map.empty startMotherDuckMCP req)) =
     [Delegate_call \<lparr>arg_req = req, arg_token = None, arg_database = lit ''default''\<rparr>] \<and>
   delegate_calls (trace (handler_unsecured Map.empty startMotherDuckMCP req)) =
     [\<lparr>arg_req = req, arg_token = None, arg_database = lit ''default''\<rparr>]"
  by (simp add: handler_unsecured_def Let_def or_else_def split: option.split)

text \<open>
  C7. With the header \<open>'Bearer  abc123  '\<close> and \<open>API_BEARER_TOKEN\<close> equal to \<open>'abc123'\<close>,
  the extracted token is \<open>'abc123'\<close>, the secured handler produces no 401, and it goes on
  to the key check: with \<open>MOTHERDUCK_API_KEY\<close> unset or empty it answers with the 500 for
  the missing key, and otherwise it begins by invoking the delegate, which it does once.
\<close>

theorem padded_token_is_accepted:
  assumes "headers req ''authorization'' = Some (lit ''Bearer  abc123  '')"
    and "env ''API_BEARER_TOKEN'' = Some (lit ''abc123'')"
  shows "extract_token req = lit ''abc123'' \<and>
         Res_status 401 \<notin> set (trace (handler_secured env startMotherDuckMCP req)) \<and>
         (falsy (env ''MOTHERDUCK_API_KEY'') \<longrightarrow>
            handler_secured env startMotherDuckMCP req =
              \<lparr>trace = [Res_status 500,
                        Res_json [(''error'',
                                   Some (lit ''Missing MOTHERDUCK_API_KEY env var''))]],
               settled = Resolved\<rparr>) \<and>
         (\<not> falsy (env ''MOTHERDUCK_API_KEY'') \<longrightarrow>
            take 1 (trace (handler_secured env startMotherDuckMCP req)) =
              [Delegate_call
                 \<lparr>arg_req = req, arg_token = env ''MOTHERDUCK_API_KEY'',
                  arg_database = or_else (env ''MOTHERDUCK_DATABASE'') (lit ''default'')\<rparr>] \<and>
            delegate_calls (trace (handler_secured env startMotherDuckMCP req)) =
              [\<lparr>arg_req = req, arg_token = env ''MOTHERDUCK_API_KEY'',
                arg_database = or_else (env ''MOTHERDUCK_DATABASE'') (lit ''default'')\<rparr>])"
proof -
  have "trim (replace (lit ''Bearer '') [] (lit ''Bearer  abc123  '')) = lit ''abc123''"
    by (simp add: trim_def is_white_space_def lit_def)
  with assms(1) have tok: "extract_token req = lit ''abc123''"
    by (simp add: extract_token_present)
  have ne: "lit ''abc123'' \<noteq> []"
    by (simp add: lit_def)
  from tok ne assms(2) have ok: "extract_token req \<noteq> []"
      "env ''API_BEARER_TOKEN'' = Some (extract_token req)"
    by simp_all
  then have no401: "Res_status 401 \<notin> set (trace (handler_secured env startMotherDuckMCP req))"
    by (simp add: secured_401_iff)
  have missing: "falsy (env ''MOTHERDUCK_API_KEY'') \<longrightarrow>
      handler_secured env startMotherDuckMCP req =
        \<lparr>trace = [Res_status 500,
                  Res_json [(''error'', Some (lit ''Missing MOTHERDUCK_API_KEY env var''))]],
         settled = Resolved\<rparr>"
    using ok by (simp add: handler_secured_missing_key)
  have proceeds: "\<not> falsy (env ''MOTHERDUCK_API_KEY'') \<longrightarrow>
      take 1 (trace (handler_secured env startMotherDuckMCP req)) =
        [Delegate_call
           \<lparr>arg_req = req, arg_token = env ''MOTHERDUCK_API_KEY'',
            arg_database = or_else (env ''MOTHERDUCK_DATABASE'') (lit ''default'')\<rparr>] \<and>
      delegate_calls (trace (handler_secured env startMotherDuckMCP req)) =
        [\<lparr>arg_req = req, arg_token = env ''MOTHERDUCK_API_KEY'',
          arg_database = or_else (env ''MOTHERDUCK_DATABASE'') (lit ''default'')\<rparr>]"
  proof
    assume key: "\<not> falsy (env ''MOTHERDUCK_API_KEY'')"
    with ok have "take 1 (trace (handler_secured env startMotherDuckMCP req)) =
        [Delegate_call
           \<lparr>arg_req = req, arg_token = env ''MOTHERDUCK_API_KEY'',
            arg_database = or_else (env ''MOTHERDUCK_DATABASE'') (lit ''default'')\<rparr>]"
      by (simp add: handler_secured_delegates Let_def split: option.split sum.split)
    moreover from ok key
    have "delegate_calls (trace (handler_secured env startMotherDuckMCP req)) =
        [\<lparr>arg_req = req, arg_token = env ''MOTHERDUCK_API_KEY'',
          arg_database = or_else (env ''MOTHERDUCK_DATABASE'') (lit ''default'')\<rparr>]"
      by (rule secured_calls_once)
    ultimately show "take 1 (trace (handler_secured env startMotherDuckMCP req)) =
        [Delegate_call
           \<lparr>arg_req = req, arg_token = env ''MOTHERDUCK_API_KEY'',
            arg_database = or_else (env ''MOTHERDUCK_DATABASE'') (lit ''default'')\<rparr>] \<and>
      delegate_calls (trace (handler_secured env startMotherDuckMCP req)) =
        [\<lparr>arg_req = req, arg_token = env ''MOTHERDUCK_API_KEY'',
          arg_database = or_else (env ''MOTHERDUCK_DATABASE'') (lit ''default'')\<rparr>]"
      by (rule conjI)
  qed
  from tok no401 missing proceeds show ?thesis by blast
qed

text \<open>
  The scenario of C7 twice: with the key \<open>'key'\<close> set and a delegate that completes, where
  the run begins with the one call of the delegate; and with the key unset, where the run
  is the 500 for the missing key.
\<close>

theorem padded_token_is_accepted_witness:
  "headers \<lparr>headers = [''authorization'' \<mapsto> lit ''Bearer  abc123  '']\<rparr> ''authorization'' =
     Some (lit ''Bearer  abc123  '') \<and>
   [''API_BEARER_TOKEN'' \<mapsto> lit ''abc123'', ''MOTHERDUCK_API_KEY'' \<mapsto> lit ''key'']
     ''API_BEARER_TOKEN'' = Some (lit ''abc123'') \<and>
   \<not> falsy ([''API_BEARER_TOKEN'' \<mapsto> lit ''abc123'', ''MOTHERDUCK_API_KEY'' \<mapsto> lit ''key'']
       ''MOTHERDUCK_API_KEY'') \<and>
   extract_token \<lparr>headers = [''authorization'' \<mapsto> lit ''Bearer  abc123  '']\<rparr> = lit ''abc123'' \<and>
   Res_status 401 \<notin> set (trace (handler_secured
       [''API_BEARER_TOKEN'' \<mapsto> lit ''abc123'', ''MOTHERDUCK_API_KEY'' \<mapsto> lit ''key'']
       (\<lambda>a. None) \<lparr>headers = [''authorization'' \<mapsto> lit ''Bearer  abc123  '']\<rparr>)) \<and>
   take 1 (trace (handler_secured
       [''API_BEARER_TOKEN'' \<mapsto> lit ''abc123'', ''MOTHERDUCK_API_KEY'' \<mapsto> lit ''key'']
       (\<lambda>a. None) \<lparr>headers = [''authorization'' \<mapsto> lit ''Bearer  abc123  '']\<rparr>)) =
     [Delegate_call
        \<lparr>arg_req = \<lparr>headers = [''authorization'' \<mapsto> lit ''Bearer  abc123  '']\<rparr>,
         arg_token = Some (lit ''key''), arg_database = lit ''default''\<rparr>] \<and>
   delegate_calls (trace (handler_secured
       [''API_BEARER_TOKEN'' \<mapsto> lit ''abc123'', ''MOTHERDUCK_API_KEY'' \<mapsto> lit ''key'']
       (\<lambda>a. None) \<lparr>headers = [''authorization'' \<mapsto> lit ''Bearer  abc123  '']\<rparr>)) =
     [\<lparr>arg_req = \<lparr>headers = [''authorization'' \<mapsto> lit ''Bearer  abc123  '']\<rparr>,
       arg_token = Some (lit ''key''), arg_database = lit ''default''\<rparr>] \<and>
   [''API_BEARER_TOKEN'' \<mapsto> lit ''abc123''] ''API_BEARER_TOKEN'' = Some (lit ''abc123'') \<and>
   falsy ([''API_BEARER_TOKEN'' \<mapsto> lit ''abc123''] ''MOTHERDUCK_API_KEY'') \<and>
   handler_secured [''API_BEARER_TOKEN'' \<mapsto> lit ''abc123''] (\<lambda>a. None)
       \<lparr>headers = [''authorization'' \<mapsto> lit ''Bearer  abc123  '']\<rparr> =
     \<lparr>trace = [Res_status 500,
               Res_json [(''error'', Some (lit ''Missing MOTHERDUCK_API_KEY env var''))]],
      settled = Resolved\<rparr>"
proof -
  let ?r = "\<lparr>headers = [''authorization'' \<mapsto> lit ''Bearer  abc123  '']\<rparr>"
  let ?e = "[''API_BEARER_TOKEN'' \<mapsto> lit ''abc123'', ''MOTHERDUCK_API_KEY'' \<mapsto> lit ''key'']"
  let ?e' = "[''API_BEARER_TOKEN'' \<mapsto> lit ''abc123'']"
  have h1: "headers ?r ''authorization'' = Some (lit ''Bearer  abc123  '')"
    by simp
  have h2: "?e ''API_BEARER_TOKEN'' = Some (lit ''abc123'')"
    by simp
  have h2': "?e' ''API_BEARER_TOKEN'' = Some (lit ''abc123'')"
    by simp
  have k: "?e ''MOTHERDUCK_API_KEY'' = Some (lit ''key'')"
    by simp
  have key: "\<not> falsy (?e ''MOTHERDUCK_API_KEY'')"
    by (simp add: falsy_def lit_def)
  have nokey: "falsy (?e' ''MOTHERDUCK_API_KEY'')"
    by (simp add: falsy_def)
  have db: "or_else (?e ''MOTHERDUCK_DATABASE'') (lit ''default'') = lit ''default''"
    by (simp add: or_else_def)
  note t = padded_token_is_accepted [where req = ?r and env = ?e
      and startMotherDuckMCP = "\<lambda>a. None", OF h1 h2]
  note t' = padded_token_is_accepted [where req = ?r and env = ?e'
      and startMotherDuckMCP = "\<lambda>a. None", OF h1 h2']
  from t have tok: "extract_token ?r = lit ''abc123''"
    and no401: "Res_status 401 \<notin> set (trace (handler_secured ?e (\<lambda>a. None) ?r))"
    by blast+
  from t key have "take 1 (trace (handler_secured ?e (\<lambda>a. None) ?r)) =
      [Delegate_call \<lparr>arg_req = ?r, arg_token = ?e ''MOTHERDUCK_API_KEY'',
         arg_database = or_else (?e ''MOTHERDUCK_DATABASE'') (lit ''default'')\<rparr>]"
    by blast
  then have first: "take 1 (trace (handler_secured ?e (\<lambda>a. None) ?r)) =
      [Delegate_call \<lparr>arg_req = ?r, arg_token = Some (lit ''key''),
         arg_database = lit ''default''\<rparr>]"
    by (simp only: k db)
  from t key have "delegate_calls (trace (handler_secured ?e (\<lambda>a. None) ?r)) =
      [\<lparr>arg_req = ?r, arg_token = ?e ''MOTHERDUCK_API_KEY'',
        arg_database = or_else (?e ''MOTHERDUCK_DATABASE'') (lit ''default'')\<rparr>]"
    by blast
  then have calls: "delegate_calls (trace (handler_secured ?e (\<lambda>a. None) ?r)) =
      [\<lparr>arg_req = ?r, arg_token = Some (lit ''key''), arg_database = lit ''default''\<rparr>]"
    by (simp only: k db)
  from t' nokey have miss: "handler_secured ?e' (\<lambda>a. None) ?r =
      \<lparr>trace = [Res_status 500,
                Res_json [(''error'', Some (lit ''Missing MOTHERDUCK_API_KEY env var''))]],
       settled = Resolved\<rparr>"
    by blast
  from h1 h2 key tok no401 first calls h2' nokey miss show ?thesis by blast
qed

text \<open>
  C8. The authorization outcome of the secured handler, 401 or not, is the same for any
  two invocations with the same Authorization header and the same environment, whatever
  the rest of the two requests and whatever the delegate does; it is decided by the
  token extracted from the header and \<open>API_BEARER_TOKEN\<close> alone.
\<close>

theorem authorization_depends_on_header_and_env:
  assumes "headers req ''authorization'' = headers req' ''authorization''"
  shows "(Res_status 401 \<in> set (trace (handler_secured env startMotherDuckMCP req))) =
         (Res_status 401 \<in> set (trace (handler_secured env startMotherDuckMCP' req'))) \<and>
         (Res_status 401 \<in> set (trace (handler_secured env startMotherDuckMCP req))) =
         (extract_token req = [] \<or> env ''API_BEARER_TOKEN'' \<noteq> Some (extract_token req))"
proof -
  from assms have "extract_token req = extract_token req'"
    by (simp add: extract_token_def)
  then show ?thesis
    by (simp add: secured_401_iff)
qed

text \<open>
  An instance of C8: two requests with the header \<open>'Bearer abc123'\<close>, the second with one
  more header, the first delegate completing and the second throwing; neither gets a 401.
\<close>

theorem authorization_depends_on_header_and_env_witness:
  "headers \<lparr>headers = [''authorization'' \<mapsto> lit ''Bearer abc123'']\<rparr> ''authorization'' =
   headers \<lparr>headers = [''authorization'' \<mapsto> lit ''Bearer abc123'',
                        ''accept'' \<mapsto> lit ''text/event-stream'']\<rparr> ''authorization'' \<and>
   (Res_status 401 \<in> set (trace (handler_secured
        [''API_BEARER_TOKEN'' \<mapsto> lit ''abc123'', ''MOTHERDUCK_API_KEY'' \<mapsto> lit ''key'']
        (\<lambda>a. None) \<lparr>headers = [''authorization'' \<mapsto> lit ''Bearer abc123'']\<rparr>))) =
   (Res_status 401 \<in> set (trace (handler_secured
        [''API_BEARER_TOKEN'' \<mapsto> lit ''abc123'', ''MOTHERDUCK_API_KEY'' \<mapsto> lit ''key'']
        (\<lambda>a. Some Nullish)
        \<lparr>headers = [''authorization'' \<mapsto> lit ''Bearer abc123'',
                     ''accept'' \<mapsto> lit ''text/event-stream'']\<rparr>))) \<and>
   Res_status 401 \<notin> set (trace (handler_secured
        [''API_BEARER_TOKEN'' \<mapsto> lit ''abc123'', ''MOTHERDUCK_API_KEY'' \<mapsto> lit ''key'']
        (\<lambda>a. None) \<lparr>headers = [''authorization'' \<mapsto> lit ''Bearer abc123'']\<rparr>))"
proof -
  let ?r1 = "\<lparr>headers = [''authorization'' \<mapsto> lit ''Bearer abc123'']\<rparr>"
  let ?r2 = "\<lparr>headers = [''authorization'' \<mapsto> lit ''Bearer abc123'',
                        ''accept'' \<mapsto> lit ''text/event-stream'']\<rparr>"
  let ?e = "[''API_BEARER_TOKEN'' \<mapsto> lit ''abc123'', ''MOTHERDUCK_API_KEY'' \<mapsto> lit ''key'']"
  have h: "headers ?r1 ''authorization'' = headers ?r2 ''authorization''"
    by simp
  have tok: "extract_token ?r1 = lit ''abc123''"
    by (simp add: extract_token_def or_else_def trim_def is_white_space_def lit_def)
  have ne: "lit ''abc123'' \<noteq> []"
    by (simp add: lit_def)
  note t = authorization_depends_on_header_and_env [where req = ?r1 and req' = ?r2
      and env = ?e and startMotherDuckMCP = "\<lambda>a. None" and startMotherDuckMCP' = "\<lambda>a. Some Nullish", OF h]
  from t have same: "(Res_status 401 \<in> set (trace (handler_secured ?e (\<lambda>a. None) ?r1))) =
      (Res_status 401 \<in> set (trace (handler_secured ?e (\<lambda>a. Some Nullish) ?r2)))"
    by (rule conjunct1)
  from t have "(Res_status 401 \<in> set (trace (handler_secured ?e (\<lambda>a. None) ?r1))) =
      (extract_token ?r1 = [] \<or> ?e ''API_BEARER_TOKEN'' \<noteq> Some (extract_token ?r1))"
    by (rule conjunct2)
  with tok ne have no: "Res_status 401 \<notin> set (trace (handler_secured ?e (\<lambda>a. None) ?r1))"
    by simp
  from h same no show ?thesis by blast
qed

text \<open>
  C9. With \<open>API_BEARER_TOKEN\<close> unset, every request to the secured handler, whatever its
  Authorization header, is answered with status 401 and the body
  \<open>{error: 'Unauthorized'}\<close>, and the delegate is not invoked.
\<close>

theorem unset_secret_rejects_all:
  assumes "env ''API_BEARER_TOKEN'' = None"
  shows "handler_secured env startMotherDuckMCP req =
           \<lparr>trace = [Res_status 401, Res_json [(''error'', Some (lit ''Unauthorized''))]],
            settled = Resolved\<rparr> \<and>
         delegate_calls (trace (handler_secured env startMotherDuckMCP req)) = []"
proof -
  from assms have "env ''API_BEARER_TOKEN'' \<noteq> Some (extract_token req)"
    by simp
  then have "handler_secured env startMotherDuckMCP req =
      \<lparr>trace = [Res_status 401, Res_json [(''error'', Some (lit ''Unauthorized''))]],
       settled = Resolved\<rparr>"
    by (simp add: handler_secured_unauthorized)
  then show ?thesis by simp
qed

text \<open>
  An instance of C9: only \<open>MOTHERDUCK_API_KEY\<close> is set, and the request carries the
  non-empty token \<open>'abc123'\<close>.
\<close>

theorem unset_secret_rejects_all_witness:
  "[''MOTHERDUCK_API_KEY'' \<mapsto> lit ''key''] ''API_BEARER_TOKEN'' = None \<and>
   handler_secured [''MOTHERDUCK_API_KEY'' \<mapsto> lit ''key''] (\<lambda>a. None)
       \<lparr>headers = [''authorization'' \<mapsto> lit ''Bearer abc123'']\<rparr> =
     \<lparr>trace = [Res_status 401, Res_json [(''error'', Some (lit ''Unauthorized''))]],
      settled = Resolved\<rparr> \<and>
   delegate_calls (trace (handler_secured [''MOTHERDUCK_API_KEY'' \<mapsto> lit ''key''] (\<lambda>a. None)
       \<lparr>headers = [''authorization'' \<mapsto> lit ''Bearer abc123'']\<rparr>)) = []"
proof -
  have h: "[''MOTHERDUCK_API_KEY'' \<mapsto> lit ''key''] ''API_BEARER_TOKEN'' = None"
    by simp
  from unset_secret_rejects_all [where env = "[''MOTHERDUCK_API_KEY'' \<mapsto> lit ''key'']"
      and startMotherDuckMCP = "\<lambda>a. None"
      and req = "\<lparr>headers = [''authorization'' \<mapsto> lit ''Bearer abc123'']\<rparr>", OF h]
  show ?thesis using h by blast
qed

text \<open>
  C10. With \<open>MOTHERDUCK_DATABASE\<close> set to the empty string, the unsecured handler invokes
  the delegate with database \<open>'default'\<close>, every invocation of the delegate by the secured
  handler has database \<open>'default'\<close>, and each handler runs exactly as it does with the
  variable unset.
\<close>

theorem empty_database_is_default:
  assumes "env ''MOTHERDUCK_DATABASE'' = Some []"
  shows "delegate_calls (trace (handler_unsecured env startMotherDuckMCP req)) =
           [\<lparr>arg_req = req, arg_token = env ''MOTHERDUCK_API_KEY'',
             arg_database = lit ''default''\<rparr>] \<and>
         (\<forall>a. Delegate_call a \<in> set (trace (handler_secured env startMotherDuckMCP req)) \<longrightarrow>
              arg_database a = lit ''default'') \<and>
         handler_unsecured env startMotherDuckMCP req =
           handler_unsecured (env(''MOTHERDUCK_DATABASE'' := None)) startMotherDuckMCP req \<and>
         handler_secured env startMotherDuckMCP req =
           handler_secured (env(''MOTHERDUCK_DATABASE'' := None)) startMotherDuckMCP req"
proof -
  from assms have db: "or_else (env ''MOTHERDUCK_DATABASE'') (lit ''default'') = lit ''default''"
    by (simp add: or_else_def)
  have "delegate_calls (trace (handler_unsecured env startMotherDuckMCP req)) =
      [\<lparr>arg_req = req, arg_token = env ''MOTHERDUCK_API_KEY'',
        arg_database = lit ''default''\<rparr>]"
    using unsecured_calls_once [of env startMotherDuckMCP req] by (simp only: db)
  moreover have "\<forall>a. Delegate_call a \<in> set (trace (handler_secured env startMotherDuckMCP req)) \<longrightarrow>
      arg_database a = lit ''default''"
  proof (intro allI impI)
    fix a
    assume "Delegate_call a \<in> set (trace (handler_secured env startMotherDuckMCP req))"
    then have "a = \<lparr>arg_req = req, arg_token = env ''MOTHERDUCK_API_KEY'',
        arg_database = or_else (env ''MOTHERDUCK_DATABASE'') (lit ''default'')\<rparr>"
      using secured_call_is_past_checks by blast
    then show "arg_database a = lit ''default''"
      by (simp add: db)
  qed
  moreover have "handler_unsecured env startMotherDuckMCP req =
      handler_unsecured (env(''MOTHERDUCK_DATABASE'' := None)) startMotherDuckMCP req"
    using assms by (simp add: handler_unsecured_def or_else_def Let_def)
  moreover have "handler_secured env startMotherDuckMCP req =
      handler_secured (env(''MOTHERDUCK_DATABASE'' := None)) startMotherDuckMCP req"
    using assms by (simp add: handler_secured_def or_else_def Let_def)
  ultimately show ?thesis by blast
qed

text \<open>
  An instance of C10 for both handlers, with a valid token for the secured one and a
  delegate that completes.
\<close>

theorem empty_database_is_default_witness:
  "[''API_BEARER_TOKEN'' \<mapsto> lit ''abc123'', ''MOTHERDUCK_API_KEY'' \<mapsto> lit ''key'',
    ''MOTHERDUCK_DATABASE'' \<mapsto> []] ''MOTHERDUCK_DATABASE'' = Some [] \<and>
   delegate_calls (trace (handler_unsecured
       [''API_BEARER_TOKEN'' \<mapsto> lit ''abc123'', ''MOTHERDUCK_API_KEY'' \<mapsto> lit ''key'',
        ''MOTHERDUCK_DATABASE'' \<mapsto> []]
       (\<lambda>a. None) \<lparr>headers = [''authorization'' \<mapsto> lit ''Bearer abc123'']\<rparr>)) =
     [\<lparr>arg_req = \<lparr>headers = [''authorization'' \<mapsto> lit ''Bearer abc123'']\<rparr>,
       arg_token = Some (lit ''key''), arg_database = lit ''default''\<rparr>] \<and>
   Delegate_call \<lparr>arg_req = \<lparr>headers = [''authorization'' \<mapsto> lit ''Bearer abc123'']\<rparr>,
                  arg_token = Some (lit ''key''), arg_database = lit ''default''\<rparr>
     \<in> set (trace (handler_secured
       [''API_BEARER_TOKEN'' \<mapsto> lit ''abc123'', ''MOTHERDUCK_API_KEY'' \<mapsto> lit ''key'',
        ''MOTHERDUCK_DATABASE'' \<mapsto> []]
       (\<lambda>a. None) \<lparr>headers = [''authorization'' \<mapsto> lit ''Bearer abc123'']\<rparr>))"
proof -
  let ?r = "\<lparr>headers = [''authorization'' \<mapsto> lit ''Bearer abc123'']\<rparr>"
  let ?e = "[''API_BEARER_TOKEN'' \<mapsto> lit ''abc123'', ''MOTHERDUCK_API_KEY'' \<mapsto> lit ''key'',
    ''MOTHERDUCK_DATABASE'' \<mapsto> []]"
  have h: "?e ''MOTHERDUCK_DATABASE'' = Some []"
    by simp
  have k: "?e ''MOTHERDUCK_API_KEY'' = Some (lit ''key'')"
    by simp
  note t = empty_database_is_default [where env = ?e and startMotherDuckMCP = "\<lambda>a. None"
      and req = ?r, OF h]
  from t have "delegate_calls (trace (handler_unsecured ?e (\<lambda>a. None) ?r)) =
      [\<lparr>arg_req = ?r, arg_token = ?e ''MOTHERDUCK_API_KEY'', arg_database = lit ''default''\<rparr>]"
    by (rule conjunct1)
  then have u: "delegate_calls (trace (handler_unsecured ?e (\<lambda>a. None) ?r)) =
      [\<lparr>arg_req = ?r, arg_token = Some (lit ''key''), arg_database = lit ''default''\<rparr>]"
    by (simp only: k)
  have tok: "extract_token ?r = lit ''abc123''"
    by (simp add: extract_token_def or_else_def trim_def is_white_space_def lit_def)
  have ne: "lit ''abc123'' \<noteq> []" "lit ''key'' \<noteq> []"
    by (simp_all add: lit_def)
  have s: "Delegate_call \<lparr>arg_req = ?r, arg_token = Some (lit ''key''),
                          arg_database = lit ''default''\<rparr>
      \<in> set (trace (handler_secured ?e (\<lambda>a. None) ?r))"
    using ne by (simp add: handler_secured_def tok falsy_def or_else_def)
  from h u s show ?thesis by blast
qed

end
